theory Spec2Isabelle
  imports Main "HOL-Library.Word" "HOL-Library.AList"
begin

unbundle bit_operations_syntax

section \<open>The values of the scene validator\<close>

text \<open>
  The validator of \<^verbatim>\<open>tools/scene_validator/scene_validator.py\<close> works on what
  \<^verbatim>\<open>json.load\<close> returns: \<^verbatim>\<open>None\<close>, booleans, unbounded integers, floats, strings,
  lists and dictionaries with string keys. A float is its IEEE 754 binary64 bit pattern.
  A string is the list of the bytes of its UTF-8 encoding, so an ASCII string is the list of
  its characters. A dictionary is the list of its items in insertion order; the dictionaries
  of Python have one item for each key.
\<close>

datatype json =
    JNull
  | JBool bool
  | JInt int
  | JFloat "64 word"
  | JStr string
  | JArr "json list"
  | JObj "(string \<times> json) list"

text \<open>The exceptions that the modelled code can raise.\<close>

datatype py_error = TypeError | KeyError

text \<open>
  What the model takes from the Python library as it is: the text of a float, the text of
  a string that has a character outside printable ASCII, \<^verbatim>\<open>json.dumps(v, indent=2)\<close>, and
  \<^verbatim>\<open>json.loads\<close>, which is \<open>None\<close> where it raises.
\<close>

record pylib =
  float_repr :: "64 word \<Rightarrow> string"
  str_repr_other :: "string \<Rightarrow> string"
  json_dumps :: "json \<Rightarrow> string"
  json_loads :: "string \<Rightarrow> json option"

section \<open>The operations of Python that the validator uses\<close>

subsection \<open>Truth value and equality\<close>

fun bool_int :: "bool \<Rightarrow> int" where
  "bool_int True = 1"
| "bool_int False = 0"

definition float_is_zero :: "64 word \<Rightarrow> bool" where
  "float_is_zero w = (w AND 0x7FFFFFFFFFFFFFFF = 0)"

text \<open>
  A float equals an integer when it is finite and its exact value is that integer: with
  biased exponent \<open>e\<close> and fraction \<open>f\<close> the value is \<open>\<plusminus> m * 2 ^ (p - 1075)\<close>, where a
  subnormal (\<open>e = 0\<close>) has \<open>m = f\<close> and \<open>p = 1\<close>, and a normal float has \<open>m = 2 ^ 52 + f\<close>
  and \<open>p = e\<close>.
\<close>

definition float_eq_int :: "64 word \<Rightarrow> int \<Rightarrow> bool" where
  "float_eq_int w i =
     (let e = unat (drop_bit 52 w AND 0x7FF);
          f = uint (w AND 0xFFFFFFFFFFFFF);
          m = (if e = 0 then f else 2 ^ 52 + f);
          s = (if bit w 63 then - m else m);
          p = (if e = 0 then 1 else e)
      in e \<noteq> 2047 \<and>
         (if 1075 \<le> p then s * 2 ^ (p - 1075) = i else s = i * 2 ^ (1075 - p)))"

text \<open>\<^verbatim>\<open>bool(v)\<close>, the test of \<^verbatim>\<open>if v\<close> and \<^verbatim>\<open>not v\<close>.\<close>

fun py_truthy :: "json \<Rightarrow> bool" where
  "py_truthy JNull = False"
| "py_truthy (JBool b) = b"
| "py_truthy (JInt i) = (i \<noteq> 0)"
| "py_truthy (JFloat w) = (\<not> float_is_zero w)"
| "py_truthy (JStr s) = (s \<noteq> [])"
| "py_truthy (JArr xs) = (xs \<noteq> [])"
| "py_truthy (JObj kvs) = (kvs \<noteq> [])"

text \<open>
  The comparison that \<^verbatim>\<open>in\<close> makes between an element and a candidate: the same object, or
  \<^verbatim>\<open>==\<close>. Booleans, integers and floats compare by their numeric value, lists item by item,
  dictionaries by their keys whatever the order. The \<^verbatim>\<open>NaN\<close> of \<^verbatim>\<open>json.load\<close> is one shared
  object, so it is found in a list that holds it, and two floats with the same bits compare
  equal here.
\<close>

fun py_eq :: "json \<Rightarrow> json \<Rightarrow> bool" where
  "py_eq JNull y = (y = JNull)"
| "py_eq (JBool a) y =
     (case y of JBool b \<Rightarrow> a = b | JInt j \<Rightarrow> bool_int a = j
      | JFloat w \<Rightarrow> float_eq_int w (bool_int a) | _ \<Rightarrow> False)"
| "py_eq (JInt i) y =
     (case y of JBool b \<Rightarrow> i = bool_int b | JInt j \<Rightarrow> i = j
      | JFloat w \<Rightarrow> float_eq_int w i | _ \<Rightarrow> False)"
| "py_eq (JFloat v) y =
     (case y of JBool b \<Rightarrow> float_eq_int v (bool_int b) | JInt j \<Rightarrow> float_eq_int v j
      | JFloat w \<Rightarrow> v = w \<or> (float_is_zero v \<and> float_is_zero w) | _ \<Rightarrow> False)"
| "py_eq (JStr s) y = (y = JStr s)"
| "py_eq (JArr xs) y = (case y of JArr ys \<Rightarrow> list_all2 py_eq xs ys | _ \<Rightarrow> False)"
| "py_eq (JObj a) y =
     (case y of JObj b \<Rightarrow> length a = length b \<and>
        list_all (\<lambda>(k, v). case map_of b k of None \<Rightarrow> False | Some v' \<Rightarrow> py_eq v v') a
      | _ \<Rightarrow> False)"

subsection \<open>Strings\<close>

text \<open>\<^verbatim>\<open>t in s\<close> for two strings: \<open>t\<close> occurs in \<open>s\<close> as a contiguous part.\<close>

fun is_substring :: "string \<Rightarrow> string \<Rightarrow> bool" where
  "is_substring t [] = (t = [])"
| "is_substring t (c # s) = (take (length t) (c # s) = t \<or> is_substring t s)"

text \<open>
  The characters of a string, each as a string of its own: the number of bytes of a
  character is read from its first byte.
\<close>

definition utf8_width :: "char \<Rightarrow> nat" where
  "utf8_width c =
     (let n = (of_char c :: nat)
      in if n < 0x80 then 1 else if n < 0xE0 then 2 else if n < 0xF0 then 3 else 4)"

fun utf8_chars :: "string \<Rightarrow> string list" where
  "utf8_chars [] = []"
| "utf8_chars (c # cs) =
     (c # take (utf8_width c - 1) cs) # utf8_chars (drop (utf8_width c - 1) cs)"

text \<open>\<^verbatim>\<open>sep.join(xs)\<close>.\<close>

fun join :: "string \<Rightarrow> string list \<Rightarrow> string" where
  "join sep [] = []"
| "join sep [x] = x"
| "join sep (x # y # ys) = x @ sep @ join sep (y # ys)"

definition nl :: string where
  "nl = [CHR 0x0A]"

subsection \<open>Containers\<close>

text \<open>
  \<^verbatim>\<open>x in c\<close>. A list is searched with \<open>py_eq\<close>; a string takes a string and looks for it as a
  part; a dictionary takes a hashable value and looks for it among its keys, which are
  strings; nothing else is a container.
\<close>

fun py_contains :: "json \<Rightarrow> json \<Rightarrow> py_error + bool" where
  "py_contains x (JArr xs) = Inr (list_ex (py_eq x) xs)"
| "py_contains x (JStr s) = (case x of JStr t \<Rightarrow> Inr (is_substring t s) | _ \<Rightarrow> Inl TypeError)"
| "py_contains x (JObj kvs) =
     (case x of JArr _ \<Rightarrow> Inl TypeError | JObj _ \<Rightarrow> Inl TypeError
      | JStr k \<Rightarrow> Inr (map_of kvs k \<noteq> None) | _ \<Rightarrow> Inr False)"
| "py_contains x _ = Inl TypeError"

text \<open>\<^verbatim>\<open>c[k]\<close> for a string \<open>k\<close>: only a dictionary can be read at a string.\<close>

fun py_getitem :: "json \<Rightarrow> string \<Rightarrow> py_error + json" where
  "py_getitem (JObj kvs) k = (case map_of kvs k of None \<Rightarrow> Inl KeyError | Some v \<Rightarrow> Inr v)"
| "py_getitem _ k = Inl TypeError"

text \<open>
  \<^verbatim>\<open>c[k] = v\<close> for a string \<open>k\<close>: a dictionary replaces the value of a key it has where it
  is, and puts a new key last.
\<close>

fun dict_store :: "json \<Rightarrow> string \<Rightarrow> json \<Rightarrow> json" where
  "dict_store (JObj kvs) k v = JObj (AList.update k v kvs)"
| "dict_store c k v = c"

fun py_setitem :: "json \<Rightarrow> string \<Rightarrow> json \<Rightarrow> py_error + json" where
  "py_setitem (JObj kvs) k v = Inr (dict_store (JObj kvs) k v)"
| "py_setitem _ k v = Inl TypeError"

text \<open>The items of a dictionary, for \<^verbatim>\<open>for key in d\<close> followed by \<^verbatim>\<open>d[key]\<close>.\<close>

fun dict_items :: "json \<Rightarrow> (string \<times> json) list" where
  "dict_items (JObj kvs) = kvs"
| "dict_items _ = []"

text \<open>\<^verbatim>\<open>len(v)\<close>.\<close>

fun py_len :: "json \<Rightarrow> py_error + nat" where
  "py_len (JArr xs) = Inr (length xs)"
| "py_len (JStr s) = Inr (length (utf8_chars s))"
| "py_len (JObj kvs) = Inr (length kvs)"
| "py_len _ = Inl TypeError"

text \<open>
  The items that \<^verbatim>\<open>xs.extend(v)\<close> appends: those of a list, the characters of a string, the
  keys of a dictionary.
\<close>

fun py_iter :: "json \<Rightarrow> py_error + json list" where
  "py_iter (JArr xs) = Inr xs"
| "py_iter (JStr s) = Inr (map JStr (utf8_chars s))"
| "py_iter (JObj kvs) = Inr (map (\<lambda>kv. JStr (fst kv)) kvs)"
| "py_iter _ = Inl TypeError"

subsection \<open>Text of a value\<close>

definition digit_char :: "nat \<Rightarrow> char" where
  "digit_char n = char_of (48 + n)"

fun show_nat :: "nat \<Rightarrow> string" where
  "show_nat n = (if n < 10 then [digit_char n] else show_nat (n div 10) @ [digit_char (n mod 10)])"

declare show_nat.simps [simp del]

definition show_int :: "int \<Rightarrow> string" where
  "show_int i = (if i < 0 then CHR ''-'' # show_nat (nat (- i)) else show_nat (nat i))"

definition printable_ascii :: "char \<Rightarrow> bool" where
  "printable_ascii c = (0x20 \<le> (of_char c :: nat) \<and> (of_char c :: nat) \<le> 0x7E)"

text \<open>
  \<^verbatim>\<open>repr(s)\<close> of a string of printable ASCII: between single quotes, or between double
  quotes when it has a single quote and no double quote; the quote in use and the backslash
  are escaped.
\<close>

definition str_repr :: "pylib \<Rightarrow> string \<Rightarrow> string" where
  "str_repr L s =
     (if list_all printable_ascii s then
        (let q = (if CHR 0x27 \<in> set s \<and> CHR 0x22 \<notin> set s then CHR 0x22 else CHR 0x27)
         in q # concat (map (\<lambda>c. if c = q \<or> c = CHR 0x5C then [CHR 0x5C, c] else [c]) s) @ [q])
      else str_repr_other L s)"

fun py_repr :: "pylib \<Rightarrow> json \<Rightarrow> string" where
  "py_repr L JNull = ''None''"
| "py_repr L (JBool b) = (if b then ''True'' else ''False'')"
| "py_repr L (JInt i) = show_int i"
| "py_repr L (JFloat w) = float_repr L w"
| "py_repr L (JStr s) = str_repr L s"
| "py_repr L (JArr xs) = ''['' @ join '', '' (map (py_repr L) xs) @ '']''"
| "py_repr L (JObj kvs) =
     ''{'' @ join '', '' (map (\<lambda>(k, v). str_repr L k @ '': '' @ py_repr L v) kvs) @ ''}''"

text \<open>\<^verbatim>\<open>str(v)\<close>, which an f-string puts for \<^verbatim>\<open>{v}\<close>: a string as it is.\<close>

fun py_str :: "pylib \<Rightarrow> json \<Rightarrow> string" where
  "py_str L (JStr s) = s"
| "py_str L v = py_repr L v"

section \<open>\<^verbatim>\<open>SceneValidator._load_rules\<close>\<close>

definition default_rules :: json where
  "default_rules = JObj
     [(''technical'', JObj
         [(''resolution'', JArr [JStr ''1920x1080'', JStr ''3840x2160'', JStr ''4096x2160'']),
          (''frameRate'', JArr [JInt 24, JInt 25, JInt 30, JInt 60]),
          (''colorSpace'', JArr [JStr ''Rec.709'', JStr ''Rec.2020'', JStr ''DCI-P3'']),
          (''audioChannels'', JArr [JInt 2, JFloat 0x4014666666666666, JFloat 0x401C666666666666]),
          (''audioSampleRate'', JArr [JInt 48000, JInt 96000])]),
      (''composition'', JObj
         [(''enforceRuleOfThirds'', JBool True),
          (''enforceHeadroom'', JBool True),
          (''enforceLeadingSpace'', JBool True)]),
      (''continuity'', JObj
         [(''checkProps'', JBool True),
          (''checkWardrobe'', JBool True),
          (''checkLighting'', JBool True),
          (''checkTimeOfDay'', JBool True)])]"

text \<open>
  The inner loop, over the items of one default section:
  \<^verbatim>\<open>if key not in custom_rules[section]: custom_rules[section][key] = default_rules[section][key]\<close>.
  The assignment changes the section where it is, inside \<^verbatim>\<open>custom_rules\<close>.
\<close>

fun fill_section :: "(string \<times> json) list \<Rightarrow> string \<Rightarrow> json \<Rightarrow> py_error + json" where
  "fill_section [] section custom = Inr custom"
| "fill_section ((key, dflt) # rest) section custom =
     (case py_getitem custom section of Inl e \<Rightarrow> Inl e | Inr sec \<Rightarrow>
       (case py_contains (JStr key) sec of Inl e \<Rightarrow> Inl e
        | Inr True \<Rightarrow> fill_section rest section custom
        | Inr False \<Rightarrow>
            (case py_setitem sec key dflt of Inl e \<Rightarrow> Inl e
             | Inr sec' \<Rightarrow> fill_section rest section (dict_store custom section sec'))))"

text \<open>The outer loop, over the default sections.\<close>

fun merge_sections :: "(string \<times> json) list \<Rightarrow> json \<Rightarrow> py_error + json" where
  "merge_sections [] custom = Inr custom"
| "merge_sections ((section, dflt) # rest) custom =
     (case py_contains (JStr section) custom of Inl e \<Rightarrow> Inl e
      | Inr True \<Rightarrow>
          (case fill_section (dict_items dflt) section custom of Inl e \<Rightarrow> Inl e
           | Inr custom' \<Rightarrow> merge_sections rest custom')
      | Inr False \<Rightarrow>
          (case py_setitem custom section dflt of Inl e \<Rightarrow> Inl e
           | Inr custom' \<Rightarrow> merge_sections rest custom'))"

text \<open>
  \<open>read_json path\<close> is \<^verbatim>\<open>json.load\<close> of the opened file, \<open>None\<close> where opening or parsing
  raises. Every exception of the \<^verbatim>\<open>try\<close> block gives the defaults.
\<close>

definition load_rules :: "(string \<Rightarrow> json option) \<Rightarrow> string option \<Rightarrow> json" where
  "load_rules read_json rules_path =
     (case rules_path of None \<Rightarrow> default_rules
      | Some path \<Rightarrow>
          if path = [] then default_rules
          else (case read_json path of None \<Rightarrow> default_rules
                | Some custom_rules \<Rightarrow>
                    (case merge_sections (dict_items default_rules) custom_rules of
                       Inl e \<Rightarrow> default_rules
                     | Inr merged \<Rightarrow> merged)))"

section \<open>\<^verbatim>\<open>SceneValidator.validate_scene_json\<close>\<close>

text \<open>
  Of the validator object the method reads \<^verbatim>\<open>self.rules\<close> and \<^verbatim>\<open>self.model\<close>. The model
  is the text-generation collaborator: \<open>model self prompt\<close> is the text of the response to
  \<^verbatim>\<open>generate_content(prompt)\<close>, \<open>None\<close> where the call or the reading of the text raises.
\<close>

record scene_validator =
  rules :: json
  model :: "string \<Rightarrow> string option"

record validation_result =
  valid :: bool
  errors :: "json list"
  warnings :: "json list"

definition required_fields :: "string list" where
  "required_fields =
     [''sceneName'', ''sceneNumber'', ''location'', ''timeOfDay'', ''characters'', ''props'']"

text \<open>
  One of the three tests of the technical block:
  \<^verbatim>\<open>if field in tech and tech[field] not in tech_rules[field]: errors.append(...)\<close>.
\<close>

definition check_allowed ::
  "pylib \<Rightarrow> json \<Rightarrow> json \<Rightarrow> string \<Rightarrow> string \<Rightarrow> json list \<Rightarrow> py_error + json list" where
  "check_allowed L tech tech_rules field label errs =
     (case py_contains (JStr field) tech of Inl e \<Rightarrow> Inl e
      | Inr False \<Rightarrow> Inr errs
      | Inr True \<Rightarrow>
          (case py_getitem tech field of Inl e \<Rightarrow> Inl e | Inr v \<Rightarrow>
            (case py_getitem tech_rules field of Inl e \<Rightarrow> Inl e | Inr allowed \<Rightarrow>
              (case py_contains v allowed of Inl e \<Rightarrow> Inl e
               | Inr True \<Rightarrow> Inr errs
               | Inr False \<Rightarrow>
                   Inr (errs @ [JStr (''Invalid '' @ label @ '': '' @ py_str L v
                                      @ ''. Must be one of '' @ py_str L allowed)])))))"

text \<open>
  The blocks of the method take the two lists \<^verbatim>\<open>errors\<close> and \<^verbatim>\<open>warnings\<close> and return
  them as they leave them, or the exception that escapes.
\<close>

definition technical_block ::
  "pylib \<Rightarrow> json \<Rightarrow> (string \<times> json) list \<Rightarrow> json list \<times> json list
     \<Rightarrow> py_error + json list \<times> json list" where
  "technical_block L R scene_data st =
     (case map_of scene_data ''technical'' of None \<Rightarrow> Inr st
      | Some tech \<Rightarrow>
          (case py_getitem R ''technical'' of Inl e \<Rightarrow> Inl e | Inr tech_rules \<Rightarrow>
            (case check_allowed L tech tech_rules ''resolution'' ''resolution'' (fst st) of
               Inl e \<Rightarrow> Inl e | Inr errs1 \<Rightarrow>
            (case check_allowed L tech tech_rules ''frameRate'' ''frame rate'' errs1 of
               Inl e \<Rightarrow> Inl e | Inr errs2 \<Rightarrow>
            (case check_allowed L tech tech_rules ''colorSpace'' ''color space'' errs2 of
               Inl e \<Rightarrow> Inl e | Inr errs3 \<Rightarrow> Inr (errs3, snd st))))))"

definition thirds_warning :: json where
  "thirds_warning = JStr ''Scene does not follow rule of thirds''"

definition composition_block ::
  "json \<Rightarrow> (string \<times> json) list \<Rightarrow> json list \<times> json list
     \<Rightarrow> py_error + json list \<times> json list" where
  "composition_block R scene_data st =
     (case map_of scene_data ''composition'' of None \<Rightarrow> Inr st
      | Some composition \<Rightarrow>
          (case py_getitem R ''composition'' of Inl e \<Rightarrow> Inl e | Inr comp_rules \<Rightarrow>
            (case py_getitem comp_rules ''enforceRuleOfThirds'' of Inl e \<Rightarrow> Inl e
             | Inr enforce \<Rightarrow>
                 if \<not> py_truthy enforce then Inr st
                 else (case py_contains (JStr ''ruleOfThirds'') composition of Inl e \<Rightarrow> Inl e
                       | Inr False \<Rightarrow> Inr st
                       | Inr True \<Rightarrow>
                           (case py_getitem composition ''ruleOfThirds'' of Inl e \<Rightarrow> Inl e
                            | Inr v \<Rightarrow>
                                if \<not> py_truthy v then Inr (fst st, snd st @ [thirds_warning])
                                else Inr st)))))"

text \<open>\<^verbatim>\<open>scene_data.get("previousScenes", [])\<close>.\<close>

definition previous_scenes :: "(string \<times> json) list \<Rightarrow> json" where
  "previous_scenes scene_data =
     (case map_of scene_data ''previousScenes'' of None \<Rightarrow> JArr [] | Some v \<Rightarrow> v)"

text \<open>
  The condition of the continuity block:
  \<^verbatim>\<open>self.rules["continuity"]["checkProps"] and len(scene_data.get("previousScenes", [])) > 0\<close>.
\<close>

definition continuity_due :: "json \<Rightarrow> (string \<times> json) list \<Rightarrow> py_error + bool" where
  "continuity_due R scene_data =
     (case py_getitem R ''continuity'' of Inl e \<Rightarrow> Inl e | Inr cont_rules \<Rightarrow>
       (case py_getitem cont_rules ''checkProps'' of Inl e \<Rightarrow> Inl e
        | Inr check \<Rightarrow>
            if \<not> py_truthy check then Inr False
            else (case py_len (previous_scenes scene_data) of Inl e \<Rightarrow> Inl e
                  | Inr n \<Rightarrow> Inr (0 < n))))"

definition indent12 :: string where
  "indent12 = replicate 12 (CHR '' '')"

definition continuity_prompt :: "pylib \<Rightarrow> (string \<times> json) list \<Rightarrow> string" where
  "continuity_prompt L scene_data =
     nl @ indent12 @ ''Analyze continuity between this scene and previous scenes.''
     @ nl @ indent12
     @ nl @ indent12 @ ''Current scene: '' @ json_dumps L (JObj scene_data)
     @ nl @ indent12
     @ nl @ indent12 @ ''Previous scenes: '' @ json_dumps L (previous_scenes scene_data)
     @ nl @ indent12
     @ nl @ indent12
     @ ''Check for continuity errors in props, wardrobe, lighting, and time of day.''
     @ nl @ indent12 @ ''Return a JSON object with these fields:''
     @ nl @ indent12 @ ''- continuityErrors: array of specific continuity errors found''
     @ nl @ indent12
     @ ''- continuityWarnings: array of potential continuity issues that should be reviewed''
     @ nl @ indent12"

text \<open>
  \<^verbatim>\<open>if field in continuity_analysis and continuity_analysis[field]: xs.extend(continuity_analysis[field])\<close>.
\<close>

definition extend_from :: "json \<Rightarrow> string \<Rightarrow> json list \<Rightarrow> py_error + json list" where
  "extend_from continuity_analysis field xs =
     (case py_contains (JStr field) continuity_analysis of Inl e \<Rightarrow> Inl e
      | Inr False \<Rightarrow> Inr xs
      | Inr True \<Rightarrow>
          (case py_getitem continuity_analysis field of Inl e \<Rightarrow> Inl e
           | Inr v \<Rightarrow>
               if py_truthy v
               then (case py_iter v of Inl e \<Rightarrow> Inl e | Inr ys \<Rightarrow> Inr (xs @ ys))
               else Inr xs))"

definition continuity_failed :: json where
  "continuity_failed = JStr ''Could not perform automated continuity check''"

text \<open>
  The \<^verbatim>\<open>try\<close> block and its handler: whatever is raised inside is caught, and the handler
  appends its warning to the lists as they are at that moment.
\<close>

definition continuity_block ::
  "pylib \<Rightarrow> (string \<Rightarrow> string option) \<Rightarrow> (string \<times> json) list \<Rightarrow> json list \<times> json list
     \<Rightarrow> json list \<times> json list" where
  "continuity_block L m scene_data st =
     (case m (continuity_prompt L scene_data) of
        None \<Rightarrow> (fst st, snd st @ [continuity_failed])
      | Some text \<Rightarrow>
          (case json_loads L text of
             None \<Rightarrow> (fst st, snd st @ [continuity_failed])
           | Some continuity_analysis \<Rightarrow>
               (case extend_from continuity_analysis ''continuityErrors'' (fst st) of
                  Inl e \<Rightarrow> (fst st, snd st @ [continuity_failed])
                | Inr errs \<Rightarrow>
                    (case extend_from continuity_analysis ''continuityWarnings'' (snd st) of
                       Inl e \<Rightarrow> (errs, snd st @ [continuity_failed])
                     | Inr warns \<Rightarrow> (errs, warns)))))"

definition missing_fields :: "(string \<times> json) list \<Rightarrow> string list" where
  "missing_fields scene_data = filter (\<lambda>field. map_of scene_data field = None) required_fields"

definition validate_scene_json ::
  "pylib \<Rightarrow> scene_validator \<Rightarrow> (string \<times> json) list \<Rightarrow> py_error + validation_result" where
  "validate_scene_json L self scene_data =
     (if missing_fields scene_data \<noteq> [] then
        Inr \<lparr>valid = False,
             errors = [JStr (''Missing required fields: ''
                             @ join '', '' (missing_fields scene_data))],
             warnings = []\<rparr>
      else
        (case technical_block L (rules self) scene_data ([], []) of Inl e \<Rightarrow> Inl e
         | Inr st1 \<Rightarrow>
        (case composition_block (rules self) scene_data st1 of Inl e \<Rightarrow> Inl e
         | Inr st2 \<Rightarrow>
        (case continuity_due (rules self) scene_data of Inl e \<Rightarrow> Inl e
         | Inr due \<Rightarrow>
             (let st3 = (if due then continuity_block L (model self) scene_data st2 else st2)
              in Inr \<lparr>valid = (length (fst st3) = 0),
                      errors = fst st3,
                      warnings = snd st3\<rparr>)))))"

section \<open>\<^verbatim>\<open>SceneValidator.generate_report\<close>\<close>

definition valid_mark :: string where
  "valid_mark = [CHR 0xE2, CHR 0x9C, CHR 0x85]"

definition invalid_mark :: string where
  "invalid_mark = [CHR 0xE2, CHR 0x9D, CHR 0x8C]"

definition bullet :: "pylib \<Rightarrow> json \<Rightarrow> string" where
  "bullet L x = ''- '' @ py_str L x"

definition report_lines :: "pylib \<Rightarrow> validation_result \<Rightarrow> string list" where
  "report_lines L validation_result =
     [''# Scene Validation Report'', []]
     @ [if valid validation_result then ''## '' @ valid_mark @ '' Scene is valid''
        else ''## '' @ invalid_mark @ '' Scene is invalid'']
     @ [[]]
     @ (if errors validation_result \<noteq> []
        then [''## Errors''] @ map (bullet L) (errors validation_result) @ [[]]
        else [])
     @ (if warnings validation_result \<noteq> []
        then [''## Warnings''] @ map (bullet L) (warnings validation_result) @ [[]]
        else [])"

definition report_text :: "pylib \<Rightarrow> validation_result \<Rightarrow> string" where
  "report_text L validation_result = join nl (report_lines L validation_result)"

text \<open>
  The files are a state \<open>fs\<close>. \<open>write_file path text fs\<close> is the \<^verbatim>\<open>with open(...)\<close> block:
  the state it leaves, and whether it raised. The method catches what is raised and
  returns the text either way.
\<close>

definition generate_report ::
  "pylib \<Rightarrow> (string \<Rightarrow> string \<Rightarrow> 'fs \<Rightarrow> 'fs \<times> bool) \<Rightarrow> validation_result \<Rightarrow> string option
     \<Rightarrow> 'fs \<Rightarrow> string \<times> 'fs" where
  "generate_report L write_file validation_result output_path fs =
     (let text = report_text L validation_result
      in case output_path of None \<Rightarrow> (text, fs)
         | Some path \<Rightarrow>
             if path = [] then (text, fs)
             else (text, fst (write_file path text fs)))"

section \<open>Example inputs\<close>

text \<open>
  The inputs at which the theorems below are run. \<open>example_lib\<close> is a library whose
  \<^verbatim>\<open>json.loads\<close> reads the text \<^verbatim>\<open>{}\<close> as the empty dictionary and raises on every other
  text. \<open>example_scene\<close> is the scene of the specification's example, \<open>required_part\<close> the
  required fields alone, \<open>thirds_scene v\<close> adds a composition block whose \<^verbatim>\<open>ruleOfThirds\<close>
  is \<open>v\<close>, and \<open>continuity_scene\<close> adds one previous scene. Both validators have the default
  rules: the collaborator of \<open>silent_validator\<close> always raises, that of \<open>terse_validator\<close>
  always answers \<^verbatim>\<open>{}\<close>. \<open>empty_rules_file\<close> is a rules file holding \<^verbatim>\<open>{}\<close>,
  \<open>custom_rules_file\<close> one holding \<open>custom_rules\<close>, and \<open>failing_write\<close> a write that raises
  and leaves the files as they are.
\<close>

definition example_lib :: pylib where
  "example_lib =
     \<lparr>float_repr = (\<lambda>w. []), str_repr_other = (\<lambda>s. []), json_dumps = (\<lambda>v. []),
      json_loads = (\<lambda>s. if s = ''{}'' then Some (JObj []) else None)\<rparr>"

definition example_scene :: "(string \<times> json) list" where
  "example_scene =
     [(''sceneName'', JStr ''S1''), (''sceneNumber'', JInt 1), (''location'', JStr ''Loft''),
      (''timeOfDay'', JStr ''Day''), (''characters'', JArr [JStr ''A'']), (''props'', JArr []),
      (''technical'', JObj [(''resolution'', JStr ''720x480'')])]"

definition silent_validator :: scene_validator where
  "silent_validator = \<lparr>rules = default_rules, model = (\<lambda>prompt. None)\<rparr>"

definition empty_rules_file :: "string \<Rightarrow> json option" where
  "empty_rules_file path = Some (JObj [])"

definition terse_validator :: scene_validator where
  "terse_validator = \<lparr>rules = default_rules, model = (\<lambda>prompt. Some ''{}'')\<rparr>"

definition required_part :: "(string \<times> json) list" where
  "required_part =
     [(''sceneName'', JStr ''S1''), (''sceneNumber'', JInt 1), (''location'', JStr ''Loft''),
      (''timeOfDay'', JStr ''Day''), (''characters'', JArr [JStr ''A'']), (''props'', JArr [])]"

definition thirds_scene :: "json \<Rightarrow> (string \<times> json) list" where
  "thirds_scene v = required_part @ [(''composition'', JObj [(''ruleOfThirds'', v)])]"

definition failing_write :: "string \<Rightarrow> string \<Rightarrow> string list \<Rightarrow> string list \<times> bool" where
  "failing_write path text fs = (fs, False)"

definition continuity_scene :: "(string \<times> json) list" where
  "continuity_scene = required_part @ [(''previousScenes'', JArr [JObj required_part])]"

definition custom_rules :: "(string \<times> json) list" where
  "custom_rules =
     [(''composition'', JObj [(''enforceRuleOfThirds'', JBool False), (''grid'', JInt 3)]),
      (''audio'', JObj [(''loudness'', JInt (- 23))])]"

definition custom_rules_file :: "string \<Rightarrow> json option" where
  "custom_rules_file path = Some (JObj custom_rules)"

section \<open>Properties\<close>

subsection \<open>Auxiliary facts\<close>

lemma is_substring_mid: "is_substring t (a @ t @ b)"
proof (induction a)
  case Nil
  have tk: "take (length t) (t @ b) = t" by simp
  show ?case
  proof (cases "t @ b")
    case Nil
    then show ?thesis by simp
  next
    case (Cons c s)
    with tk have "take (length t) (c # s) = t" by simp
    with Cons show ?thesis by simp
  qed
next
  case (Cons c a)
  then show ?case by simp
qed

lemma join_has_item: "x \<in> set xs \<Longrightarrow> \<exists>a b. join sep xs = a @ x @ b"
proof (induction sep xs rule: join.induct)
  case (1 sep)
  then show ?case by simp
next
  case (2 sep y)
  then have "join sep [y] = [] @ x @ []" by simp
  then show ?case by blast
next
  case (3 sep y z zs)
  show ?case
  proof (cases "x = y")
    case True
    then have "join sep (y # z # zs) = [] @ x @ (sep @ join sep (z # zs))" by simp
    then show ?thesis by blast
  next
    case False
    with 3 obtain a b where "join sep (z # zs) = a @ x @ b" by auto
    then have "join sep (y # z # zs) = (y @ sep @ a) @ x @ b" by simp
    then show ?thesis by blast
  qed
qed

lemma example_scene_result:
  "validate_scene_json L \<lparr>rules = default_rules, model = m\<rparr> example_scene =
     Inr \<lparr>valid = False,
          errors = [JStr ''Invalid resolution: 720x480. Must be one of ['1920x1080', '3840x2160', '4096x2160']''],
          warnings = []\<rparr>"
  by (simp add: validate_scene_json_def missing_fields_def required_fields_def example_scene_def
      technical_block_def check_allowed_def default_rules_def composition_block_def
      continuity_due_def previous_scenes_def str_repr_def printable_ascii_def Let_def)

lemma technical_block_warnings:
  "technical_block L R scene_data st = Inr st' \<Longrightarrow> snd st' = snd st"
  by (auto simp: technical_block_def split: option.splits sum.splits)

lemma composition_block_errors:
  "composition_block R scene_data st = Inr st' \<Longrightarrow> fst st' = fst st"
  by (auto simp: composition_block_def split: option.splits sum.splits if_splits bool.splits)

lemma continuity_block_warnings:
  "\<exists>more. snd (continuity_block L m scene_data st) = snd st @ more"
  by (auto simp: continuity_block_def extend_from_def
      split: option.splits sum.splits if_splits bool.splits)

lemma thirds_appended:
  assumes "map_of scene_data ''composition'' = Some (JObj c)"
    and "map_of c ''ruleOfThirds'' = Some v"
    and "\<not> py_truthy v"
    and "py_getitem R ''composition'' = Inr comp_rules"
    and "py_getitem comp_rules ''enforceRuleOfThirds'' = Inr enforce"
    and "py_truthy enforce"
  shows "composition_block R scene_data st = Inr (fst st, snd st @ [thirds_warning])"
  using assms by (simp add: composition_block_def)

lemma default_composition_rules:
  "py_getitem default_rules ''composition'' = Inr (JObj
         [(''enforceRuleOfThirds'', JBool True),
          (''enforceHeadroom'', JBool True),
          (''enforceLeadingSpace'', JBool True)])"
  by (simp add: default_rules_def)

lemma default_continuity_rules:
  "py_getitem default_rules ''continuity'' = Inr (JObj
         [(''checkProps'', JBool True),
          (''checkWardrobe'', JBool True),
          (''checkLighting'', JBool True),
          (''checkTimeOfDay'', JBool True)])"
  by (simp add: default_rules_def)

lemma thirds_scene_facts:
  "missing_fields (thirds_scene v) = []"
  "map_of (thirds_scene v) ''composition'' = Some (JObj [(''ruleOfThirds'', v)])"
  "map_of (thirds_scene v) ''technical'' = None"
  "map_of (thirds_scene v) ''previousScenes'' = None"
  by (simp_all add: thirds_scene_def required_part_def missing_fields_def required_fields_def)

lemma thirds_scene_not_due:
  "continuity_due default_rules (thirds_scene v) = Inr False"
  by (simp add: continuity_due_def default_continuity_rules previous_scenes_def thirds_scene_facts)

lemma continuity_block_errors:
  "\<exists>more. fst (continuity_block L m scene_data st) = fst st @ more"
  by (auto simp: continuity_block_def extend_from_def
      split: option.splits sum.splits if_splits bool.splits)

lemma check_allowed_record:
  assumes "map_of tech_rules field = Some (JArr allowed)"
  shows "check_allowed L (JObj tech) (JObj tech_rules) field label errs =
     Inr (errs @ (case map_of tech field of None \<Rightarrow> []
                  | Some v \<Rightarrow> if list_ex (py_eq v) allowed then []
                             else [JStr (''Invalid '' @ label @ '': '' @ py_str L v
                                         @ ''. Must be one of '' @ py_repr L (JArr allowed))]))"
  using assms by (auto simp: check_allowed_def split: option.splits)

lemma continuity_scene_facts:
  "missing_fields continuity_scene = []"
  "map_of continuity_scene ''composition'' = None"
  "map_of continuity_scene ''technical'' = None"
  "map_of continuity_scene ''previousScenes'' = Some (JArr [JObj required_part])"
  by (simp_all add: continuity_scene_def required_part_def missing_fields_def required_fields_def)

lemma continuity_scene_due:
  "continuity_due default_rules continuity_scene = Inr True"
  by (simp add: continuity_due_def default_continuity_rules previous_scenes_def
      continuity_scene_facts)

lemma fill_section_record:
  assumes "map_of C s = Some (JObj rs)"
  shows "\<exists>ms. fill_section ds s (JObj C) = Inr (JObj (AList.update s (JObj ms) C))
            \<and> (\<forall>k. map_of ms k = (case map_of rs k of Some x \<Rightarrow> Some x | None \<Rightarrow> map_of ds k))"
  using assms
proof (induction ds arbitrary: C rs)
  case Nil
  then have "fill_section [] s (JObj C) = Inr (JObj (AList.update s (JObj rs) C))"
    by (simp add: update_triv)
  moreover have "\<forall>k. map_of rs k = (case map_of rs k of Some x \<Rightarrow> Some x | None \<Rightarrow> map_of [] k)"
    by (simp split: option.splits)
  ultimately show ?case by blast
next
  case (Cons kv rest)
  obtain key dflt where kv: "kv = (key, dflt)" by (cases kv)
  show ?case
  proof (cases "map_of rs key")
    case None
    let ?rs' = "AList.update key dflt rs"
    let ?C' = "AList.update s (JObj ?rs') C"
    have present: "map_of ?C' s = Some (JObj ?rs')" by (simp add: update_conv')
    from Cons.IH [OF present] obtain ms where
      run: "fill_section rest s (JObj ?C') = Inr (JObj (AList.update s (JObj ms) ?C'))"
      and look: "\<forall>k. map_of ms k = (case map_of ?rs' k of Some x \<Rightarrow> Some x | None \<Rightarrow> map_of rest k)"
      by blast
    from run None Cons.prems
    have "fill_section (kv # rest) s (JObj C) = Inr (JObj (AList.update s (JObj ms) C))"
      by (simp add: kv)
    moreover from look None
    have "\<forall>k. map_of ms k = (case map_of rs k of Some x \<Rightarrow> Some x | None \<Rightarrow> map_of (kv # rest) k)"
      by (simp add: kv update_conv' split: option.splits)
    ultimately show ?thesis by blast
  next
    case (Some x)
    from Cons.IH [OF Cons.prems] obtain ms where
      run: "fill_section rest s (JObj C) = Inr (JObj (AList.update s (JObj ms) C))"
      and look: "\<forall>k. map_of ms k = (case map_of rs k of Some x \<Rightarrow> Some x | None \<Rightarrow> map_of rest k)"
      by blast
    from run Some Cons.prems
    have "fill_section (kv # rest) s (JObj C) = Inr (JObj (AList.update s (JObj ms) C))"
      by (simp add: kv)
    moreover from look Some
    have "\<forall>k. map_of ms k = (case map_of rs k of Some x \<Rightarrow> Some x | None \<Rightarrow> map_of (kv # rest) k)"
      by (simp add: kv split: option.splits)
    ultimately show ?thesis by blast
  qed
qed

lemma merge_sections_record:
  assumes "distinct (map fst D)"
    and "\<forall>s d. (s, d) \<in> set D \<longrightarrow> (\<exists>ds. d = JObj ds)"
    and "\<forall>s v. s \<in> fst ` set D \<longrightarrow> map_of C s = Some v \<longrightarrow> (\<exists>rs. v = JObj rs)"
  shows "\<exists>M. merge_sections D (JObj C) = Inr (JObj M)
     \<and> (\<forall>s. s \<notin> fst ` set D \<longrightarrow> map_of M s = map_of C s)
     \<and> (\<forall>s ds. (s, JObj ds) \<in> set D \<longrightarrow>
           (\<exists>ms. map_of M s = Some (JObj ms)
              \<and> (map_of C s = None \<longrightarrow> ms = ds)
              \<and> (\<forall>rs. map_of C s = Some (JObj rs) \<longrightarrow>
                    (\<forall>k. map_of ms k
                          = (case map_of rs k of Some x \<Rightarrow> Some x | None \<Rightarrow> map_of ds k)))))"
  using assms
proof (induction D arbitrary: C)
  case Nil
  then show ?case by simp
next
  case (Cons sd rest)
  obtain s0 d0 where sd: "sd = (s0, d0)" by (cases sd)
  from Cons.prems(2) sd obtain ds0 where d0: "d0 = JObj ds0" by auto
  from Cons.prems(1) sd have fresh: "s0 \<notin> fst ` set rest" and dist: "distinct (map fst rest)"
    by auto
  from Cons.prems(2) have recs: "\<forall>s d. (s, d) \<in> set rest \<longrightarrow> (\<exists>ds. d = JObj ds)"
    by auto
  \<comment> \<open>the dictionary after the first default section, with what it holds at that section\<close>
  have step: "\<exists>C' ms0. merge_sections (sd # rest) (JObj C) = merge_sections rest (JObj C')
      \<and> map_of C' = (map_of C)(s0 \<mapsto> JObj ms0)
      \<and> (map_of C s0 = None \<longrightarrow> ms0 = ds0)
      \<and> (\<forall>rs. map_of C s0 = Some (JObj rs) \<longrightarrow>
            (\<forall>k. map_of ms0 k = (case map_of rs k of Some x \<Rightarrow> Some x | None \<Rightarrow> map_of ds0 k)))"
  proof (cases "map_of C s0")
    case None
    then have "merge_sections (sd # rest) (JObj C)
               = merge_sections rest (JObj (AList.update s0 (JObj ds0) C))"
      by (simp add: sd d0)
    moreover have "map_of (AList.update s0 (JObj ds0) C) = (map_of C)(s0 \<mapsto> JObj ds0)"
      by (rule update_conv')
    ultimately show ?thesis using None by auto
  next
    case (Some v)
    have "s0 \<in> fst ` set (sd # rest)" by (simp add: sd)
    with Cons.prems(3) Some obtain rs where v: "v = JObj rs" by blast
    from Some v have here: "map_of C s0 = Some (JObj rs)" by simp
    from fill_section_record [OF here, of ds0] obtain ms where
      run: "fill_section ds0 s0 (JObj C) = Inr (JObj (AList.update s0 (JObj ms) C))"
      and look: "\<forall>k. map_of ms k = (case map_of rs k of Some x \<Rightarrow> Some x | None \<Rightarrow> map_of ds0 k)"
      by blast
    from run here have "merge_sections (sd # rest) (JObj C)
               = merge_sections rest (JObj (AList.update s0 (JObj ms) C))"
      by (simp add: sd d0)
    moreover have "map_of (AList.update s0 (JObj ms) C) = (map_of C)(s0 \<mapsto> JObj ms)"
      by (rule update_conv')
    ultimately show ?thesis using here look by auto
  qed
  then obtain C' ms0 where
    eq: "merge_sections (sd # rest) (JObj C) = merge_sections rest (JObj C')"
    and C': "map_of C' = (map_of C)(s0 \<mapsto> JObj ms0)"
    and absent: "map_of C s0 = None \<longrightarrow> ms0 = ds0"
    and both: "\<forall>rs. map_of C s0 = Some (JObj rs) \<longrightarrow>
            (\<forall>k. map_of ms0 k = (case map_of rs k of Some x \<Rightarrow> Some x | None \<Rightarrow> map_of ds0 k))"
    by (elim exE conjE) (rule that)
  have other: "map_of C' s = map_of C s" if "s \<noteq> s0" for s
    using that by (simp add: C')
  have shapes:
    "\<forall>s v. s \<in> fst ` set rest \<longrightarrow> map_of C' s = Some v \<longrightarrow> (\<exists>rs. v = JObj rs)"
  proof (intro allI impI)
    fix s v
    assume m: "s \<in> fst ` set rest" and l: "map_of C' s = Some v"
    from m fresh have "s \<noteq> s0" by auto
    with l other have "map_of C s = Some v" by simp
    moreover from m have "s \<in> fst ` set (sd # rest)" by auto
    ultimately show "\<exists>rs. v = JObj rs" using Cons.prems(3) by blast
  qed
  from Cons.IH [OF dist recs shapes] obtain M where
    run: "merge_sections rest (JObj C') = Inr (JObj M)"
    and out: "\<forall>s. s \<notin> fst ` set rest \<longrightarrow> map_of M s = map_of C' s"
    and ins: "\<forall>s ds. (s, JObj ds) \<in> set rest \<longrightarrow>
           (\<exists>ms. map_of M s = Some (JObj ms)
              \<and> (map_of C' s = None \<longrightarrow> ms = ds)
              \<and> (\<forall>rs. map_of C' s = Some (JObj rs) \<longrightarrow>
                    (\<forall>k. map_of ms k
                          = (case map_of rs k of Some x \<Rightarrow> Some x | None \<Rightarrow> map_of ds k))))"
    by blast
  have a: "merge_sections (sd # rest) (JObj C) = Inr (JObj M)"
    using eq run by simp
  have b: "\<forall>s. s \<notin> fst ` set (sd # rest) \<longrightarrow> map_of M s = map_of C s"
    using out other by (simp add: sd)
  have c: "\<exists>ms. map_of M s = Some (JObj ms)
              \<and> (map_of C s = None \<longrightarrow> ms = ds)
              \<and> (\<forall>rs. map_of C s = Some (JObj rs) \<longrightarrow>
                    (\<forall>k. map_of ms k
                          = (case map_of rs k of Some x \<Rightarrow> Some x | None \<Rightarrow> map_of ds k)))"
    if mem: "(s, JObj ds) \<in> set (sd # rest)" for s ds
  proof (cases "(s, JObj ds) \<in> set rest")
    case True
    then have "s \<in> fst ` set rest" by force
    with fresh have "s \<noteq> s0" by auto
    then have e: "map_of C' s = map_of C s" by (rule other)
    from ins True have "\<exists>ms. map_of M s = Some (JObj ms)
              \<and> (map_of C' s = None \<longrightarrow> ms = ds)
              \<and> (\<forall>rs. map_of C' s = Some (JObj rs) \<longrightarrow>
                    (\<forall>k. map_of ms k
                          = (case map_of rs k of Some x \<Rightarrow> Some x | None \<Rightarrow> map_of ds k)))"
      by blast
    then show ?thesis unfolding e .
  next
    case False
    with mem sd d0 have s: "s = s0" and ds: "ds = ds0" by auto
    from out fresh have "map_of M s0 = map_of C' s0" by simp
    then have "map_of M s0 = Some (JObj ms0)" by (simp add: C')
    with absent both show ?thesis unfolding s ds by (intro exI [of _ ms0] conjI)
  qed
  have c': "\<forall>s ds. (s, JObj ds) \<in> set (sd # rest) \<longrightarrow>
           (\<exists>ms. map_of M s = Some (JObj ms)
              \<and> (map_of C s = None \<longrightarrow> ms = ds)
              \<and> (\<forall>rs. map_of C s = Some (JObj rs) \<longrightarrow>
                    (\<forall>k. map_of ms k
                          = (case map_of rs k of Some x \<Rightarrow> Some x | None \<Rightarrow> map_of ds k))))"
    by (intro allI impI) (rule c)
  from a b c' show ?case by (intro exI [of _ M] conjI)
qed


lemma default_sections:
  "distinct (map fst (dict_items default_rules))"
  "fst ` set (dict_items default_rules) = {''technical'', ''composition'', ''continuity''}"
  "\<forall>s d. (s, d) \<in> set (dict_items default_rules) \<longrightarrow> (\<exists>ds. d = JObj ds)"
  by (auto simp: default_rules_def)

subsection \<open>The result and its validity\<close>

text \<open>
  Claim C1. Whatever the scene and the rules, a result that \<open>validate_scene_json\<close> returns
  has \<open>valid\<close> true exactly when its \<open>errors\<close> are empty; the warnings play no part.
\<close>

theorem valid_iff_no_errors:
  assumes "validate_scene_json L self scene_data = Inr r"
  shows "valid r = (errors r = [])"
  using assms
  by (auto simp: validate_scene_json_def Let_def split: if_splits sum.splits)

theorem valid_iff_no_errors_witness:
  "validate_scene_json example_lib silent_validator example_scene =
     Inr \<lparr>valid = False,
          errors = [JStr ''Invalid resolution: 720x480. Must be one of ['1920x1080', '3840x2160', '4096x2160']''],
          warnings = []\<rparr>
   \<and> valid \<lparr>valid = False,
          errors = [JStr ''Invalid resolution: 720x480. Must be one of ['1920x1080', '3840x2160', '4096x2160']''],
          warnings = []\<rparr> = (errors \<lparr>valid = False,
          errors = [JStr ''Invalid resolution: 720x480. Must be one of ['1920x1080', '3840x2160', '4096x2160']''],
          warnings = []\<rparr> = [])"
proof -
  have run: "validate_scene_json example_lib silent_validator example_scene =
     Inr \<lparr>valid = False,
          errors = [JStr ''Invalid resolution: 720x480. Must be one of ['1920x1080', '3840x2160', '4096x2160']''],
          warnings = []\<rparr>"
    unfolding silent_validator_def by (rule example_scene_result)
  from valid_iff_no_errors [OF run] run show ?thesis by simp
qed

subsection \<open>Missing required fields\<close>

text \<open>
  Claim C3. When a required field \<open>f\<close> is absent from the scene, \<open>validate_scene_json\<close>
  returns at once: \<open>valid\<close> is false, there is one error and no warning, the error is the
  required fields that are absent joined by a comma and a space, and \<open>f\<close> occurs in it.
  Neither the library, the validator nor the rest of the scene has any influence.
\<close>

theorem missing_required_fields:
  assumes "f \<in> set required_fields" and "map_of scene_data f = None"
  shows "\<exists>msg. validate_scene_json L self scene_data =
            Inr \<lparr>valid = False, errors = [JStr msg], warnings = []\<rparr>
          \<and> msg = ''Missing required fields: ''
              @ join '', '' (filter (\<lambda>g. map_of scene_data g = None) required_fields)
          \<and> is_substring f msg"
proof -
  let ?missing = "filter (\<lambda>g. map_of scene_data g = None) required_fields"
  from assms have mem: "f \<in> set ?missing" by simp
  then have ne: "missing_fields scene_data \<noteq> []"
    unfolding missing_fields_def by (auto simp: filter_empty_conv)
  from join_has_item [OF mem] obtain a b where "join '', '' ?missing = a @ f @ b" by blast
  then have "''Missing required fields: '' @ join '', '' ?missing
             = (''Missing required fields: '' @ a) @ f @ b" by simp
  then have "is_substring f (''Missing required fields: '' @ join '', '' ?missing)"
    by (metis is_substring_mid)
  with ne show ?thesis
    by (simp add: validate_scene_json_def missing_fields_def)
qed

theorem missing_required_fields_witness:
  "''location'' \<in> set required_fields
   \<and> map_of (filter (\<lambda>kv. fst kv \<noteq> ''location'' \<and> fst kv \<noteq> ''props'') example_scene) ''location'' = None
   \<and> validate_scene_json example_lib silent_validator
        (filter (\<lambda>kv. fst kv \<noteq> ''location'' \<and> fst kv \<noteq> ''props'') example_scene) =
       Inr \<lparr>valid = False, errors = [JStr ''Missing required fields: location, props''],
            warnings = []\<rparr>"
proof -
  let ?s = "filter (\<lambda>kv. fst kv \<noteq> ''location'' \<and> fst kv \<noteq> ''props'') example_scene"
  have a: "''location'' \<in> set required_fields" by (simp add: required_fields_def)
  have b: "map_of ?s ''location'' = None" by (simp add: example_scene_def)
  have c: "filter (\<lambda>g. map_of ?s g = None) required_fields = [''location'', ''props'']"
    by (simp add: example_scene_def required_fields_def)
  from missing_required_fields [OF a b, of example_lib silent_validator] a b c
  show ?thesis by simp
qed

subsection \<open>Loading the rules\<close>

text \<open>
  Claim C8. Without a rules path, with an empty one, or with a file that parses to the
  empty dictionary, \<open>load_rules\<close> returns the default rules: merging the empty dictionary
  with the defaults gives the defaults.
\<close>

theorem load_rules_identity:
  assumes "rules_path = None \<or> rules_path = Some []
           \<or> (\<exists>path. rules_path = Some path \<and> read_json path = Some (JObj []))"
  shows "load_rules read_json rules_path = default_rules
         \<and> merge_sections (dict_items default_rules) (JObj []) = Inr default_rules"
proof -
  have m: "merge_sections (dict_items default_rules) (JObj []) = Inr default_rules"
    by (simp add: default_rules_def)
  from assms m show ?thesis
    by (auto simp: load_rules_def)
qed

theorem load_rules_identity_witness:
  "empty_rules_file ''rules.json'' = Some (JObj [])
   \<and> load_rules empty_rules_file (Some ''rules.json'') = default_rules
   \<and> load_rules empty_rules_file None = default_rules"
  using load_rules_identity [of "Some ''rules.json''" empty_rules_file]
    load_rules_identity [of None empty_rules_file]
  by (simp add: empty_rules_file_def)

subsection \<open>The continuity check and the collaborator\<close>

text \<open>
  Claim C6. When the scene has no \<^verbatim>\<open>previousScenes\<close> or an empty list of them, or when
  \<^verbatim>\<open>continuity.checkProps\<close> of the rules is false (or any other value that counts as
  false), the collaborator is not consulted: two validators that differ only in their
  collaborator give the same outcome.
\<close>

theorem no_collaborator_call:
  assumes "map_of scene_data ''previousScenes'' = None
           \<or> map_of scene_data ''previousScenes'' = Some (JArr [])
           \<or> (\<exists>cont_rules check. py_getitem (rules self) ''continuity'' = Inr cont_rules
                 \<and> py_getitem cont_rules ''checkProps'' = Inr check \<and> \<not> py_truthy check)"
  shows "validate_scene_json L (self\<lparr>model := m1\<rparr>) scene_data
         = validate_scene_json L (self\<lparr>model := m2\<rparr>) scene_data"
proof -
  from assms have "continuity_due (rules self) scene_data \<noteq> Inr True"
    by (auto simp: continuity_due_def previous_scenes_def split: sum.splits)
  then show ?thesis
    by (auto simp: validate_scene_json_def Let_def split: sum.splits)
qed

theorem no_collaborator_call_witness:
  "map_of (thirds_scene JNull) ''previousScenes'' = None
   \<and> validate_scene_json example_lib silent_validator (thirds_scene JNull)
     = validate_scene_json example_lib terse_validator (thirds_scene JNull)"
proof -
  have a: "map_of (thirds_scene JNull) ''previousScenes'' = None"
    by (rule thirds_scene_facts)
  have b: "silent_validator\<lparr>model := (\<lambda>prompt. Some ''{}'')\<rparr> = terse_validator"
    by (simp add: silent_validator_def terse_validator_def)
  have c: "silent_validator\<lparr>model := (\<lambda>prompt. None)\<rparr> = silent_validator"
    by (simp add: silent_validator_def)
  from no_collaborator_call [of "thirds_scene JNull" silent_validator example_lib
      "\<lambda>prompt. None" "\<lambda>prompt. Some ''{}''"] a b c
  show ?thesis by simp
qed

subsection \<open>The composition check\<close>

text \<open>
  Claim C5. Let \<^verbatim>\<open>composition.enforceRuleOfThirds\<close> of the rules be \<open>enforce\<close>. The
  composition check leaves the errors and the warnings as they are when the scene has no
  composition block or \<open>enforce\<close> counts as false, and it never changes the errors. When
  \<open>enforce\<close> counts as true and the composition block sets \<^verbatim>\<open>ruleOfThirds\<close> to
  \<^verbatim>\<open>false\<close>, it appends the rule-of-thirds warning and nothing else; then, where the
  continuity check is not due, the result has the errors of the technical check alone and
  is valid when there are none.
\<close>

theorem rule_of_thirds_warning:
  assumes "py_getitem (rules self) ''composition'' = Inr comp_rules"
    and "py_getitem comp_rules ''enforceRuleOfThirds'' = Inr enforce"
  shows "(map_of scene_data ''composition'' = None \<or> \<not> py_truthy enforce
            \<longrightarrow> composition_block (rules self) scene_data st = Inr st)
       \<and> (composition_block (rules self) scene_data (es, ws) = Inr (es', ws') \<longrightarrow> es' = es)
       \<and> (py_truthy enforce \<and> map_of scene_data ''composition'' = Some (JObj c)
            \<and> map_of c ''ruleOfThirds'' = Some (JBool False)
          \<longrightarrow> composition_block (rules self) scene_data (es, ws) = Inr (es, ws @ [thirds_warning])
            \<and> (missing_fields scene_data = []
                 \<and> technical_block L (rules self) scene_data ([], []) = Inr (es1, ws1)
                 \<and> continuity_due (rules self) scene_data = Inr False
               \<longrightarrow> validate_scene_json L self scene_data
                     = Inr \<lparr>valid = (es1 = []), errors = es1, warnings = [thirds_warning]\<rparr>))"
proof (intro conjI impI)
  assume "map_of scene_data ''composition'' = None \<or> \<not> py_truthy enforce"
  with assms show "composition_block (rules self) scene_data st = Inr st"
    by (auto simp: composition_block_def split: option.splits)
next
  assume "composition_block (rules self) scene_data (es, ws) = Inr (es', ws')"
  from composition_block_errors [OF this] show "es' = es" by simp
next
  assume h: "py_truthy enforce \<and> map_of scene_data ''composition'' = Some (JObj c)
            \<and> map_of c ''ruleOfThirds'' = Some (JBool False)"
  with assms thirds_appended [of scene_data c "JBool False" "rules self" comp_rules enforce "(es, ws)"]
  show "composition_block (rules self) scene_data (es, ws) = Inr (es, ws @ [thirds_warning])"
    by simp
next
  assume h: "py_truthy enforce \<and> map_of scene_data ''composition'' = Some (JObj c)
            \<and> map_of c ''ruleOfThirds'' = Some (JBool False)"
  assume k: "missing_fields scene_data = []
                 \<and> technical_block L (rules self) scene_data ([], []) = Inr (es1, ws1)
                 \<and> continuity_due (rules self) scene_data = Inr False"
  from k technical_block_warnings [of L "rules self" scene_data "([], [])" "(es1, ws1)"]
  have w: "ws1 = []" by simp
  from h assms thirds_appended [of scene_data c "JBool False" "rules self" comp_rules enforce "(es1, [])"]
  have "composition_block (rules self) scene_data (es1, []) = Inr (es1, [thirds_warning])"
    by simp
  with k w show "validate_scene_json L self scene_data
                     = Inr \<lparr>valid = (es1 = []), errors = es1, warnings = [thirds_warning]\<rparr>"
    by (simp add: validate_scene_json_def)
qed

theorem rule_of_thirds_warning_witness:
  "py_getitem (rules silent_validator) ''composition'' = Inr (JObj
         [(''enforceRuleOfThirds'', JBool True),
          (''enforceHeadroom'', JBool True),
          (''enforceLeadingSpace'', JBool True)])
   \<and> py_truthy (JBool True)
   \<and> map_of (thirds_scene (JBool False)) ''composition'' = Some (JObj [(''ruleOfThirds'', JBool False)])
   \<and> missing_fields (thirds_scene (JBool False)) = []
   \<and> technical_block example_lib (rules silent_validator) (thirds_scene (JBool False)) ([], []) = Inr ([], [])
   \<and> continuity_due (rules silent_validator) (thirds_scene (JBool False)) = Inr False
   \<and> validate_scene_json example_lib silent_validator (thirds_scene (JBool False))
       = Inr \<lparr>valid = True, errors = [], warnings = [thirds_warning]\<rparr>
   \<and> map_of example_scene ''composition'' = None
   \<and> composition_block (rules silent_validator) example_scene ([], []) = Inr ([], [])"
proof -
  have r: "rules silent_validator = default_rules" by (simp add: silent_validator_def)
  have a: "py_getitem (rules silent_validator) ''composition'' = Inr (JObj
         [(''enforceRuleOfThirds'', JBool True),
          (''enforceHeadroom'', JBool True),
          (''enforceLeadingSpace'', JBool True)])"
    by (simp add: r default_composition_rules)
  have b: "py_getitem (JObj
         [(''enforceRuleOfThirds'', JBool True),
          (''enforceHeadroom'', JBool True),
          (''enforceLeadingSpace'', JBool True)]) ''enforceRuleOfThirds'' = Inr (JBool True)"
    by simp
  have t: "technical_block example_lib (rules silent_validator) (thirds_scene (JBool False)) ([], [])
           = Inr ([], [])"
    by (simp add: technical_block_def thirds_scene_facts)
  have d: "continuity_due (rules silent_validator) (thirds_scene (JBool False)) = Inr False"
    by (simp add: r thirds_scene_not_due)
  have e: "map_of example_scene ''composition'' = None" by (simp add: example_scene_def)
  from rule_of_thirds_warning [OF a b, of "thirds_scene (JBool False)" "([], [])" "[]" "[]" "[]" "[]"
      "[(''ruleOfThirds'', JBool False)]" example_lib "[]" "[]"]
    rule_of_thirds_warning [OF a b, of example_scene "([], [])"]
    a t d e thirds_scene_facts [of "JBool False"]
  show ?thesis by simp
qed

text \<open>
  Claim C10. The rule-of-thirds test is a test of truth value: with all required fields
  present, \<^verbatim>\<open>enforceRuleOfThirds\<close> counting as true and a composition block whose
  \<^verbatim>\<open>ruleOfThirds\<close> is any value \<open>v\<close> that counts as false, the composition check appends the
  warning, and a result that \<open>validate_scene_json\<close> returns has it as its first warning;
  no result is returned only where the technical check or the continuity condition raises.
  \<^verbatim>\<open>False\<close>, \<^verbatim>\<open>0\<close>, the empty string, \<^verbatim>\<open>None\<close> and the empty list all count as false.
\<close>

theorem rule_of_thirds_truthiness:
  assumes "missing_fields scene_data = []"
    and "map_of scene_data ''composition'' = Some (JObj c)"
    and "map_of c ''ruleOfThirds'' = Some v"
    and "\<not> py_truthy v"
    and "py_getitem (rules self) ''composition'' = Inr comp_rules"
    and "py_getitem comp_rules ''enforceRuleOfThirds'' = Inr enforce"
    and "py_truthy enforce"
  shows "composition_block (rules self) scene_data (es, ws) = Inr (es, ws @ [thirds_warning])
       \<and> (case validate_scene_json L self scene_data of
            Inl e \<Rightarrow> technical_block L (rules self) scene_data ([], []) = Inl e
                     \<or> continuity_due (rules self) scene_data = Inl e
          | Inr r \<Rightarrow> \<exists>more. warnings r = thirds_warning # more)
       \<and> \<not> py_truthy (JBool False) \<and> \<not> py_truthy (JInt 0) \<and> \<not> py_truthy (JStr [])
       \<and> \<not> py_truthy JNull \<and> \<not> py_truthy (JArr [])"
proof -
  have blk: "composition_block (rules self) scene_data st = Inr (fst st, snd st @ [thirds_warning])"
    for st
    using assms(2-7) by (rule thirds_appended)
  have "case validate_scene_json L self scene_data of
            Inl e \<Rightarrow> technical_block L (rules self) scene_data ([], []) = Inl e
                     \<or> continuity_due (rules self) scene_data = Inl e
          | Inr r \<Rightarrow> \<exists>more. warnings r = thirds_warning # more"
  proof (cases "technical_block L (rules self) scene_data ([], [])")
    case (Inl e)
    with assms(1) show ?thesis by (simp add: validate_scene_json_def)
  next
    case (Inr st1)
    from technical_block_warnings [OF Inr] have w: "snd st1 = []" by simp
    show ?thesis
    proof (cases "continuity_due (rules self) scene_data")
      case (Inl e)
      with Inr assms(1) show ?thesis by (simp add: validate_scene_json_def blk)
    next
      case due: (Inr due)
      from continuity_block_warnings [of L "model self" scene_data "(fst st1, [thirds_warning])"]
      obtain more where "snd (continuity_block L (model self) scene_data (fst st1, [thirds_warning]))
                         = thirds_warning # more" by auto
      with Inr due w assms(1) show ?thesis
        by (simp add: validate_scene_json_def blk Let_def)
    qed
  qed
  with blk [of "(es, ws)"] show ?thesis by simp
qed

theorem rule_of_thirds_truthiness_witness:
  "missing_fields (thirds_scene (JInt 0)) = []
   \<and> map_of (thirds_scene (JInt 0)) ''composition'' = Some (JObj [(''ruleOfThirds'', JInt 0)])
   \<and> \<not> py_truthy (JInt 0)
   \<and> composition_block (rules terse_validator) (thirds_scene (JInt 0)) ([], [])
       = Inr ([], [thirds_warning])
   \<and> validate_scene_json example_lib terse_validator (thirds_scene (JInt 0))
       = Inr \<lparr>valid = True, errors = [], warnings = [thirds_warning]\<rparr>"
proof -
  have r: "rules terse_validator = default_rules" by (simp add: terse_validator_def)
  have a: "py_getitem (rules terse_validator) ''composition'' = Inr (JObj
         [(''enforceRuleOfThirds'', JBool True),
          (''enforceHeadroom'', JBool True),
          (''enforceLeadingSpace'', JBool True)])"
    by (simp add: r default_composition_rules)
  have b: "py_getitem (JObj
         [(''enforceRuleOfThirds'', JBool True),
          (''enforceHeadroom'', JBool True),
          (''enforceLeadingSpace'', JBool True)]) ''enforceRuleOfThirds'' = Inr (JBool True)"
    by simp
  have run: "validate_scene_json example_lib terse_validator (thirds_scene (JInt 0))
       = Inr \<lparr>valid = True, errors = [], warnings = [thirds_warning]\<rparr>"
    by (simp add: validate_scene_json_def technical_block_def composition_block_def
        thirds_scene_facts r default_composition_rules thirds_scene_not_due)
  have v: "\<not> py_truthy (JInt 0)" by simp
  have c: "map_of [(''ruleOfThirds'', JInt 0)] ''ruleOfThirds'' = Some (JInt 0)" by simp
  have t: "py_truthy (JBool True)" by simp
  from rule_of_thirds_truthiness [OF thirds_scene_facts(1) thirds_scene_facts(2) c v a b t,
      of "[]" "[]" example_lib]
    thirds_scene_facts [of "JInt 0"] run
  show ?thesis by simp
qed

subsection \<open>The report\<close>

text \<open>
  Claim C9. The report is the lines below joined by newlines: the title, an empty line,
  the status line with its mark, an empty line, then for the errors, unless there are none,
  the heading \<^verbatim>\<open>## Errors\<close>, one bullet for each error and an empty line, and the same
  for the warnings under \<^verbatim>\<open>## Warnings\<close>. \<open>generate_report\<close> returns this text whatever
  the output path and whatever the writing does. The result that is valid, with no error
  and the one warning \<^verbatim>\<open>w1\<close>, gives a text with the mark of validity, without the word
  \<^verbatim>\<open>Errors\<close>, ending in the warnings heading and the bullet \<^verbatim>\<open>- w1\<close>.
\<close>

theorem report_structure:
  "report_text L r =
     join nl ([''# Scene Validation Report'', [],
               (if valid r then ''## '' @ valid_mark @ '' Scene is valid''
                else ''## '' @ invalid_mark @ '' Scene is invalid''), []]
              @ (if errors r = [] then []
                 else ''## Errors'' # map (\<lambda>e. ''- '' @ py_str L e) (errors r) @ [[]])
              @ (if warnings r = [] then []
                 else ''## Warnings'' # map (\<lambda>w. ''- '' @ py_str L w) (warnings r) @ [[]]))
   \<and> fst (generate_report L write_file r output_path fs) = report_text L r
   \<and> report_text L \<lparr>valid = True, errors = [], warnings = [JStr ''w1'']\<rparr> =
       ''# Scene Validation Report'' @ nl @ nl @ ''## '' @ valid_mark @ '' Scene is valid''
       @ nl @ nl @ ''## Warnings'' @ nl @ ''- w1'' @ nl
   \<and> is_substring valid_mark (report_text L \<lparr>valid = True, errors = [], warnings = [JStr ''w1'']\<rparr>)
   \<and> \<not> is_substring ''Errors'' (report_text L \<lparr>valid = True, errors = [], warnings = [JStr ''w1'']\<rparr>)
   \<and> is_substring (''## Warnings'' @ nl @ ''- w1'' @ nl)
        (report_text L \<lparr>valid = True, errors = [], warnings = [JStr ''w1'']\<rparr>)"
proof -
  have a: "report_text L r =
     join nl ([''# Scene Validation Report'', [],
               (if valid r then ''## '' @ valid_mark @ '' Scene is valid''
                else ''## '' @ invalid_mark @ '' Scene is invalid''), []]
              @ (if errors r = [] then []
                 else ''## Errors'' # map (\<lambda>e. ''- '' @ py_str L e) (errors r) @ [[]])
              @ (if warnings r = [] then []
                 else ''## Warnings'' # map (\<lambda>w. ''- '' @ py_str L w) (warnings r) @ [[]]))"
  proof -
    have "bullet L = (\<lambda>e. ''- '' @ py_str L e)"
      by (simp add: fun_eq_iff bullet_def)
    then show ?thesis
      by (simp add: report_text_def report_lines_def)
  qed
  have b: "fst (generate_report L write_file r output_path fs) = report_text L r"
    by (simp add: generate_report_def Let_def split: option.splits)
  have c: "report_text L \<lparr>valid = True, errors = [], warnings = [JStr ''w1'']\<rparr> =
       ''# Scene Validation Report'' @ nl @ nl @ ''## '' @ valid_mark @ '' Scene is valid''
       @ nl @ nl @ ''## Warnings'' @ nl @ ''- w1'' @ nl"
    by (simp add: report_text_def report_lines_def bullet_def)
  have d: "is_substring valid_mark (''# Scene Validation Report'' @ nl @ nl @ ''## '' @ valid_mark @ '' Scene is valid''
       @ nl @ nl @ ''## Warnings'' @ nl @ ''- w1'' @ nl)"
    by (simp add: nl_def valid_mark_def)
  have e: "\<not> is_substring ''Errors'' (''# Scene Validation Report'' @ nl @ nl @ ''## '' @ valid_mark @ '' Scene is valid''
       @ nl @ nl @ ''## Warnings'' @ nl @ ''- w1'' @ nl)"
    by (simp add: nl_def valid_mark_def)
  have f: "is_substring (''## Warnings'' @ nl @ ''- w1'' @ nl) (''# Scene Validation Report'' @ nl @ nl @ ''## '' @ valid_mark @ '' Scene is valid''
       @ nl @ nl @ ''## Warnings'' @ nl @ ''- w1'' @ nl)"
    by (simp add: nl_def valid_mark_def)
  from a b c d e f show ?thesis by (simp only: simp_thms)
qed

theorem report_structure_witness:
  "generate_report example_lib failing_write \<lparr>valid = True, errors = [], warnings = [JStr ''w1'']\<rparr>
     (Some ''report.md'') [] =
   (''# Scene Validation Report'' @ nl @ nl @ ''## '' @ valid_mark @ '' Scene is valid''
       @ nl @ nl @ ''## Warnings'' @ nl @ ''- w1'' @ nl, [])"
proof -
  have "snd (generate_report example_lib failing_write
          \<lparr>valid = True, errors = [], warnings = [JStr ''w1'']\<rparr> (Some ''report.md'') []) = []"
    by (simp add: generate_report_def failing_write_def Let_def)
  with report_structure [of example_lib "\<lparr>valid = True, errors = [], warnings = [JStr ''w1'']\<rparr>"
      failing_write "Some ''report.md''" "[]"]
  show ?thesis by (simp add: prod_eq_iff)
qed

subsection \<open>The technical check\<close>

text \<open>
  Claim C4. Let the scene have all required fields and a technical block that is a
  dictionary, and let the rules give a list of allowed values for the resolution, the frame
  rate and the colour space. The technical check then produces, in this order, one error
  for each of the three fields that the technical block has with a value that is not in its
  list, and none for a field that is absent or allowed; the error holds the text of the
  value and the text of the list. A result that \<open>validate_scene_json\<close> returns starts with
  these errors, and none is returned only where the composition check or the continuity
  condition raises. The example scene with resolution \<^verbatim>\<open>720x480\<close> under the default rules
  is invalid with the one error shown and no warning, whatever the library and the
  collaborator.
\<close>

theorem technical_errors:
  assumes "missing_fields scene_data = []"
    and "map_of scene_data ''technical'' = Some (JObj tech)"
    and "py_getitem (rules self) ''technical'' = Inr (JObj tech_rules)"
    and "map_of tech_rules ''resolution'' = Some (JArr resolutions)"
    and "map_of tech_rules ''frameRate'' = Some (JArr frame_rates)"
    and "map_of tech_rules ''colorSpace'' = Some (JArr color_spaces)"
  shows "\<exists>errs.
      errs = (case map_of tech ''resolution'' of None \<Rightarrow> []
              | Some v \<Rightarrow> if list_ex (py_eq v) resolutions then []
                  else [JStr (''Invalid resolution: '' @ py_str L v
                              @ ''. Must be one of '' @ py_repr L (JArr resolutions))])
           @ (case map_of tech ''frameRate'' of None \<Rightarrow> []
              | Some v \<Rightarrow> if list_ex (py_eq v) frame_rates then []
                  else [JStr (''Invalid frame rate: '' @ py_str L v
                              @ ''. Must be one of '' @ py_repr L (JArr frame_rates))])
           @ (case map_of tech ''colorSpace'' of None \<Rightarrow> []
              | Some v \<Rightarrow> if list_ex (py_eq v) color_spaces then []
                  else [JStr (''Invalid color space: '' @ py_str L v
                              @ ''. Must be one of '' @ py_repr L (JArr color_spaces))])
      \<and> technical_block L (rules self) scene_data ([], []) = Inr (errs, [])
      \<and> (case validate_scene_json L self scene_data of
            Inl e \<Rightarrow> composition_block (rules self) scene_data (errs, []) = Inl e
                     \<or> continuity_due (rules self) scene_data = Inl e
          | Inr r \<Rightarrow> \<exists>more. errors r = errs @ more)
      \<and> validate_scene_json L' \<lparr>rules = default_rules, model = m\<rparr> example_scene =
          Inr \<lparr>valid = False,
               errors = [JStr ''Invalid resolution: 720x480. Must be one of ['1920x1080', '3840x2160', '4096x2160']''],
               warnings = []\<rparr>"
proof -
  let ?errs = "(case map_of tech ''resolution'' of None \<Rightarrow> []
              | Some v \<Rightarrow> if list_ex (py_eq v) resolutions then []
                  else [JStr (''Invalid resolution: '' @ py_str L v
                              @ ''. Must be one of '' @ py_repr L (JArr resolutions))])
           @ (case map_of tech ''frameRate'' of None \<Rightarrow> []
              | Some v \<Rightarrow> if list_ex (py_eq v) frame_rates then []
                  else [JStr (''Invalid frame rate: '' @ py_str L v
                              @ ''. Must be one of '' @ py_repr L (JArr frame_rates))])
           @ (case map_of tech ''colorSpace'' of None \<Rightarrow> []
              | Some v \<Rightarrow> if list_ex (py_eq v) color_spaces then []
                  else [JStr (''Invalid color space: '' @ py_str L v
                              @ ''. Must be one of '' @ py_repr L (JArr color_spaces))])"
  have tb: "technical_block L (rules self) scene_data ([], []) = Inr (?errs, [])"
    unfolding technical_block_def
    by (simp add: assms(2,3) check_allowed_record [OF assms(4)]
        check_allowed_record [OF assms(5)] check_allowed_record [OF assms(6)]
        split: option.splits)
  have v: "case validate_scene_json L self scene_data of
            Inl e \<Rightarrow> composition_block (rules self) scene_data (?errs, []) = Inl e
                     \<or> continuity_due (rules self) scene_data = Inl e
          | Inr r \<Rightarrow> \<exists>more. errors r = ?errs @ more"
  proof (cases "composition_block (rules self) scene_data (?errs, [])")
    case (Inl e)
    with tb assms(1) show ?thesis by (simp add: validate_scene_json_def)
  next
    case (Inr st2)
    from composition_block_errors [OF Inr] have f: "fst st2 = ?errs" by simp
    show ?thesis
    proof (cases "continuity_due (rules self) scene_data")
      case (Inl e)
      with Inr tb assms(1) show ?thesis by (simp add: validate_scene_json_def)
    next
      case due: (Inr due)
      from continuity_block_errors [of L "model self" scene_data st2] f
      obtain more where "fst (continuity_block L (model self) scene_data st2) = ?errs @ more"
        by auto
      with Inr due tb f assms(1) show ?thesis
        by (simp add: validate_scene_json_def Let_def)
    qed
  qed
  from tb v example_scene_result [of L' m] show ?thesis by blast
qed

theorem technical_errors_witness:
  "missing_fields example_scene = []
   \<and> map_of example_scene ''technical'' = Some (JObj [(''resolution'', JStr ''720x480'')])
   \<and> technical_block example_lib (rules silent_validator) example_scene ([], []) =
       Inr ([JStr ''Invalid resolution: 720x480. Must be one of ['1920x1080', '3840x2160', '4096x2160']''], [])"
proof -
  let ?tr = "[(''resolution'', JArr [JStr ''1920x1080'', JStr ''3840x2160'', JStr ''4096x2160'']),
          (''frameRate'', JArr [JInt 24, JInt 25, JInt 30, JInt 60]),
          (''colorSpace'', JArr [JStr ''Rec.709'', JStr ''Rec.2020'', JStr ''DCI-P3'']),
          (''audioChannels'', JArr [JInt 2, JFloat 0x4014666666666666, JFloat 0x401C666666666666]),
          (''audioSampleRate'', JArr [JInt 48000, JInt 96000])]"
  have a: "missing_fields example_scene = []"
    by (simp add: example_scene_def missing_fields_def required_fields_def)
  have b: "map_of example_scene ''technical'' = Some (JObj [(''resolution'', JStr ''720x480'')])"
    by (simp add: example_scene_def)
  have c: "py_getitem (rules silent_validator) ''technical'' = Inr (JObj ?tr)"
    by (simp add: silent_validator_def default_rules_def)
  have d: "map_of ?tr ''resolution'' = Some (JArr [JStr ''1920x1080'', JStr ''3840x2160'', JStr ''4096x2160''])"
    by simp
  have e: "map_of ?tr ''frameRate'' = Some (JArr [JInt 24, JInt 25, JInt 30, JInt 60])"
    by simp
  have f: "map_of ?tr ''colorSpace'' = Some (JArr [JStr ''Rec.709'', JStr ''Rec.2020'', JStr ''DCI-P3''])"
    by simp
  from technical_errors [OF a b c d e f, of example_lib] a b
  show ?thesis by (simp add: str_repr_def printable_ascii_def Let_def)
qed

subsection \<open>Failures of the continuity check\<close>

text \<open>
  Claim C7, as it is stated, counts a response without the two fields among the failures
  that add the generic warning. The code tests each field with \<^verbatim>\<open>in\<close> before it reads
  it, so a parsed dictionary without them adds nothing: here the continuity check is due,
  the collaborator answers \<^verbatim>\<open>{}\<close>, which parses to the empty dictionary, and the result
  has no warning at all.
\<close>

theorem missing_fields_no_warning_counterexample:
  "continuity_due (rules terse_validator) continuity_scene = Inr True
   \<and> model terse_validator (continuity_prompt example_lib continuity_scene) = Some ''{}''
   \<and> json_loads example_lib ''{}'' = Some (JObj [])
   \<and> validate_scene_json example_lib terse_validator continuity_scene =
       Inr \<lparr>valid = True, errors = [], warnings = []\<rparr>"
  by (simp add: terse_validator_def continuity_scene_due example_lib_def validate_scene_json_def
      continuity_scene_facts technical_block_def composition_block_def continuity_block_def
      extend_from_def)

text \<open>
  Claim C7, amended. Let the scene have all required fields, let the technical and the
  composition check leave the errors \<open>es\<close> and the warnings \<open>ws\<close>, and let the continuity
  check be due. If the collaborator raises, or its response does not parse, or reading
  \<^verbatim>\<open>continuityErrors\<close> from the parsed response raises, then \<open>validate_scene_json\<close> returns
  a result: its errors are \<open>es\<close>, its warnings are \<open>ws\<close> followed by the generic warning,
  once, and it is valid exactly when \<open>es\<close> is empty. If the response parses to a dictionary
  that has neither \<^verbatim>\<open>continuityErrors\<close> nor \<^verbatim>\<open>continuityWarnings\<close>, the result has the
  errors \<open>es\<close> and the warnings \<open>ws\<close> and nothing more.
\<close>

theorem continuity_failure_warning:
  assumes "missing_fields scene_data = []"
    and "technical_block L (rules self) scene_data ([], []) = Inr st1"
    and "composition_block (rules self) scene_data st1 = Inr (es, ws)"
    and "continuity_due (rules self) scene_data = Inr True"
  shows "(model self (continuity_prompt L scene_data) = None
          \<or> (\<exists>text. model self (continuity_prompt L scene_data) = Some text
                \<and> json_loads L text = None)
          \<or> (\<exists>text analysis e. model self (continuity_prompt L scene_data) = Some text
                \<and> json_loads L text = Some analysis
                \<and> extend_from analysis ''continuityErrors'' es = Inl e)
         \<longrightarrow> validate_scene_json L self scene_data =
               Inr \<lparr>valid = (es = []), errors = es, warnings = ws @ [continuity_failed]\<rparr>)
       \<and> ((\<exists>text kvs. model self (continuity_prompt L scene_data) = Some text
                \<and> json_loads L text = Some (JObj kvs)
                \<and> map_of kvs ''continuityErrors'' = None
                \<and> map_of kvs ''continuityWarnings'' = None)
         \<longrightarrow> validate_scene_json L self scene_data =
               Inr \<lparr>valid = (es = []), errors = es, warnings = ws\<rparr>)"
proof -
  have v: "validate_scene_json L self scene_data =
      Inr \<lparr>valid = (fst (continuity_block L (model self) scene_data (es, ws)) = []),
           errors = fst (continuity_block L (model self) scene_data (es, ws)),
           warnings = snd (continuity_block L (model self) scene_data (es, ws))\<rparr>"
    using assms by (simp add: validate_scene_json_def Let_def)
  show ?thesis
    unfolding v
    by (auto simp: continuity_block_def extend_from_def)
qed

theorem continuity_failure_warning_witness:
  "missing_fields continuity_scene = []
   \<and> technical_block example_lib (rules silent_validator) continuity_scene ([], []) = Inr ([], [])
   \<and> composition_block (rules silent_validator) continuity_scene ([], []) = Inr ([], [])
   \<and> continuity_due (rules silent_validator) continuity_scene = Inr True
   \<and> model silent_validator (continuity_prompt example_lib continuity_scene) = None
   \<and> validate_scene_json example_lib silent_validator continuity_scene =
       Inr \<lparr>valid = True, errors = [], warnings = [continuity_failed]\<rparr>"
proof -
  have a: "missing_fields continuity_scene = []" by (rule continuity_scene_facts)
  have b: "technical_block example_lib (rules silent_validator) continuity_scene ([], [])
           = Inr ([], [])"
    by (simp add: technical_block_def continuity_scene_facts)
  have c: "composition_block (rules silent_validator) continuity_scene ([], []) = Inr ([], [])"
    by (simp add: composition_block_def continuity_scene_facts)
  have d: "continuity_due (rules silent_validator) continuity_scene = Inr True"
    by (simp add: silent_validator_def continuity_scene_due)
  have e: "model silent_validator (continuity_prompt example_lib continuity_scene) = None"
    by (simp add: silent_validator_def)
  from continuity_failure_warning [OF a b c d] a b c d e
  show ?thesis by simp
qed

subsection \<open>Merging custom rules with the defaults\<close>

text \<open>
  Claim C2. Let the rules file parse to a dictionary \<open>R\<close> in which each of the sections
  \<^verbatim>\<open>technical\<close>, \<^verbatim>\<open>composition\<close> and \<^verbatim>\<open>continuity\<close>, where present, is a dictionary.
  Then \<open>load_rules\<close> returns a dictionary \<open>M\<close> such that every default section \<open>s\<close> is a
  section of \<open>M\<close>: the default section itself when \<open>R\<close> has no \<open>s\<close>, and otherwise a
  dictionary that gives each key the value that the section of \<open>R\<close> gives it and, for a
  key which that section lacks, the default value. So every default key is present, the
  value of \<open>R\<close> wins, and the keys that only \<open>R\<close> has keep their values. A section of
  \<open>R\<close> that is not a default section is in \<open>M\<close> unchanged, and \<open>M\<close> has no other section.
\<close>

theorem merge_with_defaults:
  assumes "path \<noteq> []"
    and "read_json path = Some (JObj R)"
    and "\<forall>s \<in> {''technical'', ''composition'', ''continuity''}.
           \<forall>v. map_of R s = Some v \<longrightarrow> (\<exists>rs. v = JObj rs)"
  shows "\<exists>M. load_rules read_json (Some path) = JObj M
     \<and> (\<forall>s ds. map_of (dict_items default_rules) s = Some (JObj ds) \<longrightarrow>
           (\<exists>ms. map_of M s = Some (JObj ms)
              \<and> (map_of R s = None \<longrightarrow> ms = ds)
              \<and> (\<forall>rs. map_of R s = Some (JObj rs) \<longrightarrow>
                    (\<forall>k. map_of ms k
                          = (case map_of rs k of Some x \<Rightarrow> Some x | None \<Rightarrow> map_of ds k)))))
     \<and> (\<forall>s. map_of (dict_items default_rules) s = None \<longrightarrow> map_of M s = map_of R s)"
proof -
  let ?D = "dict_items default_rules"
  from assms(3) have shapes:
    "\<forall>s v. s \<in> fst ` set ?D \<longrightarrow> map_of R s = Some v \<longrightarrow> (\<exists>rs. v = JObj rs)"
    unfolding default_sections(2) by blast
  from merge_sections_record [OF default_sections(1) default_sections(3) shapes]
  obtain M where
    run: "merge_sections ?D (JObj R) = Inr (JObj M)"
    and out: "\<forall>s. s \<notin> fst ` set ?D \<longrightarrow> map_of M s = map_of R s"
    and ins: "\<forall>s ds. (s, JObj ds) \<in> set ?D \<longrightarrow>
           (\<exists>ms. map_of M s = Some (JObj ms)
              \<and> (map_of R s = None \<longrightarrow> ms = ds)
              \<and> (\<forall>rs. map_of R s = Some (JObj rs) \<longrightarrow>
                    (\<forall>k. map_of ms k
                          = (case map_of rs k of Some x \<Rightarrow> Some x | None \<Rightarrow> map_of ds k))))"
    by (elim exE conjE) (rule that)
  from run assms(1,2) have a: "load_rules read_json (Some path) = JObj M"
    by (simp add: load_rules_def)
  have b: "\<forall>s ds. map_of ?D s = Some (JObj ds) \<longrightarrow>
           (\<exists>ms. map_of M s = Some (JObj ms)
              \<and> (map_of R s = None \<longrightarrow> ms = ds)
              \<and> (\<forall>rs. map_of R s = Some (JObj rs) \<longrightarrow>
                    (\<forall>k. map_of ms k
                          = (case map_of rs k of Some x \<Rightarrow> Some x | None \<Rightarrow> map_of ds k))))"
  proof (intro allI impI)
    fix s ds
    assume "map_of ?D s = Some (JObj ds)"
    then have "(s, JObj ds) \<in> set ?D" by (rule map_of_SomeD)
    with ins show "\<exists>ms. map_of M s = Some (JObj ms)
              \<and> (map_of R s = None \<longrightarrow> ms = ds)
              \<and> (\<forall>rs. map_of R s = Some (JObj rs) \<longrightarrow>
                    (\<forall>k. map_of ms k
                          = (case map_of rs k of Some x \<Rightarrow> Some x | None \<Rightarrow> map_of ds k)))"
      by blast
  qed
  have c: "\<forall>s. map_of ?D s = None \<longrightarrow> map_of M s = map_of R s"
  proof (intro allI impI)
    fix s
    assume "map_of ?D s = None"
    then have "s \<notin> fst ` set ?D" by (simp add: map_of_eq_None_iff)
    with out show "map_of M s = map_of R s" by blast
  qed
  from a b c show ?thesis by (intro exI [of _ M] conjI)
qed

theorem merge_with_defaults_witness:
  "''rules.json'' \<noteq> []
   \<and> custom_rules_file ''rules.json'' = Some (JObj custom_rules)
   \<and> map_of custom_rules ''technical'' = None
   \<and> map_of custom_rules ''composition''
       = Some (JObj [(''enforceRuleOfThirds'', JBool False), (''grid'', JInt 3)])
   \<and> map_of custom_rules ''continuity'' = None
   \<and> load_rules custom_rules_file (Some ''rules.json'') = JObj
       [(''composition'', JObj
           [(''enforceRuleOfThirds'', JBool False), (''grid'', JInt 3),
            (''enforceHeadroom'', JBool True), (''enforceLeadingSpace'', JBool True)]),
        (''audio'', JObj [(''loudness'', JInt (- 23))]),
        (''technical'', JObj
           [(''resolution'', JArr [JStr ''1920x1080'', JStr ''3840x2160'', JStr ''4096x2160'']),
            (''frameRate'', JArr [JInt 24, JInt 25, JInt 30, JInt 60]),
            (''colorSpace'', JArr [JStr ''Rec.709'', JStr ''Rec.2020'', JStr ''DCI-P3'']),
            (''audioChannels'', JArr [JInt 2, JFloat 0x4014666666666666, JFloat 0x401C666666666666]),
            (''audioSampleRate'', JArr [JInt 48000, JInt 96000])]),
        (''continuity'', JObj
           [(''checkProps'', JBool True),
            (''checkWardrobe'', JBool True),
            (''checkLighting'', JBool True),
            (''checkTimeOfDay'', JBool True)])]"
proof -
  have a: "''rules.json'' \<noteq> []" by simp
  have b: "custom_rules_file ''rules.json'' = Some (JObj custom_rules)"
    by (simp add: custom_rules_file_def)
  have c: "\<forall>s \<in> {''technical'', ''composition'', ''continuity''}.
         \<forall>v. map_of custom_rules s = Some v \<longrightarrow> (\<exists>rs. v = JObj rs)"
    by (simp add: custom_rules_def)
  have d: "load_rules custom_rules_file (Some ''rules.json'') = JObj
       [(''composition'', JObj
           [(''enforceRuleOfThirds'', JBool False), (''grid'', JInt 3),
            (''enforceHeadroom'', JBool True), (''enforceLeadingSpace'', JBool True)]),
        (''audio'', JObj [(''loudness'', JInt (- 23))]),
        (''technical'', JObj
           [(''resolution'', JArr [JStr ''1920x1080'', JStr ''3840x2160'', JStr ''4096x2160'']),
            (''frameRate'', JArr [JInt 24, JInt 25, JInt 30, JInt 60]),
            (''colorSpace'', JArr [JStr ''Rec.709'', JStr ''Rec.2020'', JStr ''DCI-P3'']),
            (''audioChannels'', JArr [JInt 2, JFloat 0x4014666666666666, JFloat 0x401C666666666666]),
            (''audioSampleRate'', JArr [JInt 48000, JInt 96000])]),
        (''continuity'', JObj
           [(''checkProps'', JBool True),
            (''checkWardrobe'', JBool True),
            (''checkLighting'', JBool True),
            (''checkTimeOfDay'', JBool True)])]"
    by (simp add: load_rules_def custom_rules_file_def custom_rules_def default_rules_def)
  have e: "map_of custom_rules ''technical'' = None"
    "map_of custom_rules ''composition''
       = Some (JObj [(''enforceRuleOfThirds'', JBool False), (''grid'', JInt 3)])"
    "map_of custom_rules ''continuity'' = None"
    by (simp_all add: custom_rules_def)
  from merge_with_defaults [of "''rules.json''" custom_rules_file custom_rules, OF a b c] a b d e
  show ?thesis by (simp only: simp_thms)
qed

end
